theory Spec2Isabelle
  imports Complex_Main "HOL-Library.Sublist"
begin

section \<open>The spaCy NLP API (main.py)\<close>

text \<open>
  main.py wraps a spaCy pipeline in five HTTP handlers. The pipeline is a third-party
  library: it is a parameter of the model. What the handlers read from it is listed
  below, one accessor per attribute of spaCy's objects that main.py touches. A Python
  \<open>str\<close> is a \<open>string\<close>, one \<open>char\<close> per character; an \<open>int\<close> is an \<open>int\<close>; the
  \<open>float\<close> of a similarity is a \<open>real\<close>, on which the handlers do no arithmetic.
\<close>

subsection \<open>What the handlers read from spaCy\<close>

text \<open>
  A \<open>Span\<close> (an entity, a sentence, a noun chunk): the attributes \<open>text\<close>,
  \<open>label_\<close>, \<open>start_char\<close>, \<open>end_char\<close>, and the result of \<open>str(span)\<close>.
\<close>

record Span =
  span_text :: string
  span_label :: string
  span_start_char :: int
  span_end_char :: int
  span_str :: string

text \<open>
  A \<open>Doc\<close>: \<open>doc.ents\<close>, the tokens that iterating the doc yields, \<open>doc.sents\<close> and
  \<open>doc.noun_chunks\<close>. Tokens are opaque objects of type \<open>'tok\<close>.
\<close>

record 'tok Doc =
  doc_ents :: "Span list"
  doc_tokens :: "'tok list"
  doc_sents :: "Span list"
  doc_noun_chunks :: "Span list"

text \<open>
  The loaded pipeline (the module-level \<open>nlp\<close>): calling it on a text gives a \<open>Doc\<close>
  or raises; \<open>doc1.similarity(doc2)\<close> gives a number or raises; a token has the
  attributes \<open>text\<close>, \<open>pos_\<close>, \<open>tag_\<close>, \<open>dep_\<close>, \<open>lemma_\<close>, \<open>head\<close> (a token)
  and \<open>children\<close> (tokens). An exception of the library is a value of
  \<open>engine_exn\<close>, its message.
\<close>

type_synonym engine_exn = string

record 'tok Language =
  pipeline :: "string \<Rightarrow> engine_exn + 'tok Doc"
  similarity_of :: "'tok Doc \<Rightarrow> 'tok Doc \<Rightarrow> engine_exn + real"
  token_text :: "'tok \<Rightarrow> string"
  token_pos :: "'tok \<Rightarrow> string"
  token_tag :: "'tok \<Rightarrow> string"
  token_dep :: "'tok \<Rightarrow> string"
  token_lemma :: "'tok \<Rightarrow> string"
  token_head :: "'tok \<Rightarrow> 'tok"
  token_children :: "'tok \<Rightarrow> 'tok list"

subsection \<open>Exceptions\<close>

text \<open>
  \<open>RuntimeError\<close> is raised at import time when the model is missing, \<open>HTTPException\<close>
  by a handler; \<open>EngineError\<close> is an exception of the library that no handler catches.
\<close>

datatype exn =
  RuntimeError string
| HTTPException int string
| EngineError engine_exn

subsection \<open>Request and response models\<close>

record TextRequest =
  "text" :: string

record TextsRequest =
  texts :: "string list"

record Entity =
  "text" :: string
  label :: string
  start :: int
  "end" :: int

record Token =
  "text" :: string
  pos :: string
  tag :: string
  dep :: string
  "lemma" :: string


record POSResponse =
  tokens :: "Token list"

record SimilarityResponse =
  similarity :: real

text \<open>The dictionaries that \<open>basic_analysis\<close> and \<open>dependency_parse\<close> build, by key.\<close>

record Analysis =
  tokens :: "string list"
  "lemmas" :: "string list"
  sentences :: "string list"
  noun_phrases :: "string list"

record DependencyRecord =
  token :: string
  dep :: string
  head :: string
  children :: "string list"

record DependencyParse =
  dependencies :: "DependencyRecord list"

subsection \<open>The handlers\<close>


definition parts_of_speech ::
  "'tok Language \<Rightarrow> TextRequest \<Rightarrow> exn + POSResponse" where
  "parts_of_speech nlp request =
     (case pipeline nlp (TextRequest.text request) of
        Inl e \<Rightarrow> Inl (EngineError e)
      | Inr doc \<Rightarrow>
          Inr \<lparr>POSResponse.tokens =
                 map (\<lambda>token. \<lparr>Token.text = token_text nlp token,
                                pos = token_pos nlp token,
                                tag = token_tag nlp token,
                                Token.dep = token_dep nlp token,
                                lemma = token_lemma nlp token\<rparr>)
                     (doc_tokens doc)\<rparr>)"

text \<open>
  \<open>text_similarity\<close> checks the number of texts first; then it processes the two
  texts in order and compares the documents. \<open>float(similarity)\<close> keeps the value.
\<close>

definition text_similarity ::
  "'tok Language \<Rightarrow> TextsRequest \<Rightarrow> exn + SimilarityResponse" where
  "text_similarity nlp request =
     (if length (texts request) \<noteq> 2
      then Inl (HTTPException 400
                 ''Exactly two texts must be provided for similarity comparison'')
      else
        (case pipeline nlp (texts request ! 0) of
           Inl e \<Rightarrow> Inl (EngineError e)
         | Inr doc1 \<Rightarrow>
             (case pipeline nlp (texts request ! 1) of
                Inl e \<Rightarrow> Inl (EngineError e)
              | Inr doc2 \<Rightarrow>
                  (case similarity_of nlp doc1 doc2 of
                     Inl e \<Rightarrow> Inl (EngineError e)
                   | Inr s \<Rightarrow> Inr \<lparr>similarity = s\<rparr>))))"

definition basic_analysis ::
  "'tok Language \<Rightarrow> TextRequest \<Rightarrow> exn + Analysis" where
  "basic_analysis nlp request =
     (case pipeline nlp (TextRequest.text request) of
        Inl e \<Rightarrow> Inl (EngineError e)
      | Inr doc \<Rightarrow>
          Inr \<lparr>Analysis.tokens = map (token_text nlp) (doc_tokens doc),
               lemmas = map (token_lemma nlp) (doc_tokens doc),
               sentences = map span_str (doc_sents doc),
               noun_phrases = map span_text (doc_noun_chunks doc)\<rparr>)"

definition dependency_parse ::
  "'tok Language \<Rightarrow> TextRequest \<Rightarrow> exn + DependencyParse" where
  "dependency_parse nlp request =
     (case pipeline nlp (TextRequest.text request) of
        Inl e \<Rightarrow> Inl (EngineError e)
      | Inr doc \<Rightarrow>
          Inr \<lparr>dependencies =
                 map (\<lambda>token. \<lparr>token = token_text nlp token,
                                DependencyRecord.dep = token_dep nlp token,
                                head = token_text nlp (token_head nlp token),
                                children = map (token_text nlp) (token_children nlp token)\<rparr>)
                     (doc_tokens doc)\<rparr>)"

subsection \<open>Start of the process\<close>


record 'tok process =
  nlp :: "'tok Language"



subsection \<open>Routing\<close>

text \<open>
  A request that reaches a handler is a route with a body of the route's model. The
  handlers read the global \<open>nlp\<close> and assign nothing outside their own locals, so
  serving a request gives a result and the process as it was.
\<close>

datatype request =
  POST_ner TextRequest
| POST_pos TextRequest
| POST_similarity TextsRequest
| POST_basic_analysis TextRequest
| POST_dependency_parse TextRequest




subsection \<open>A small pipeline to evaluate the handlers on\<close>

text \<open>
  Tokens are their positions. The pipeline knows the sentence
  \<open>Apple had had enough.\<close>, parsed as a dependency parser does (the auxiliary
  \<open>had\<close> and every other token attached to the main verb \<open>had\<close>, which is its own
  head), and the empty text; it raises on any other text.
\<close>

definition apple_doc :: "nat Doc" where
  "apple_doc =
     \<lparr>doc_ents = [\<lparr>span_text = ''Apple'', span_label = ''ORG'',
                   span_start_char = 0, span_end_char = 5, span_str = ''Apple''\<rparr>],
      doc_tokens = [0, 1, 2, 3, 4],
      doc_sents = [\<lparr>span_text = ''Apple had had enough.'', span_label = [],
                    span_start_char = 0, span_end_char = 21,
                    span_str = ''Apple had had enough.''\<rparr>],
      doc_noun_chunks = [\<lparr>span_text = ''Apple'', span_label = ''NP'',
                          span_start_char = 0, span_end_char = 5, span_str = ''Apple''\<rparr>]\<rparr>"

definition empty_doc :: "nat Doc" where
  "empty_doc = \<lparr>doc_ents = [], doc_tokens = [], doc_sents = [], doc_noun_chunks = []\<rparr>"

definition apple_nlp :: "nat Language" where
  "apple_nlp =
     \<lparr>pipeline = (\<lambda>t. if t = ''Apple had had enough.'' then Inr apple_doc
                       else if t = [] then Inr empty_doc
                       else Inl ''unknown text''),
      similarity_of = (\<lambda>d1 d2. Inr (if d1 = d2 then 1 else 0)),
      token_text = (\<lambda>i. if i = 0 then ''Apple'' else if i = 1 \<or> i = 2 then ''had''
                          else if i = 3 then ''enough'' else ''.''),
      token_pos = (\<lambda>i. if i = 0 then ''PROPN'' else if i = 1 then ''AUX''
                         else if i = 2 then ''VERB'' else if i = 3 then ''ADJ''
                         else ''PUNCT''),
      token_tag = (\<lambda>i. if i = 0 then ''NNP'' else if i = 1 then ''VBD''
                         else if i = 2 then ''VBN'' else if i = 3 then ''JJ'' else ''.''),
      token_dep = (\<lambda>i. if i = 0 then ''nsubj'' else if i = 1 then ''aux''
                         else if i = 2 then ''ROOT'' else if i = 3 then ''dobj''
                         else ''punct''),
      token_lemma = (\<lambda>i. if i = 0 then ''Apple'' else if i = 1 \<or> i = 2 then ''have''
                           else if i = 3 then ''enough'' else ''.''),
      token_head = (\<lambda>i. 2),
      token_children = (\<lambda>i. if i = 2 then [0, 1, 3, 4] else [])\<rparr>"

lemma pipeline_apple: "pipeline apple_nlp ''Apple had had enough.'' = Inr apple_doc"
  by (simp add: apple_nlp_def)

section \<open>The similarity handler\<close>

text \<open>
  C1. \<open>text_similarity\<close> fails with the 400 error whose detail is
  "Exactly two texts must be provided for similarity comparison" if and only if the list
  of texts does not have length 2, and it raises no other \<open>HTTPException\<close>. With two
  texts (the same text twice included) that the pipeline processes and compares, it
  returns a \<open>SimilarityResponse\<close> holding the number the pipeline computed.
\<close>

theorem text_similarity_two_texts:
  "((text_similarity eng request =
       Inl (HTTPException 400
             ''Exactly two texts must be provided for similarity comparison''))
      = (length (texts request) \<noteq> 2))
   \<and> (\<forall>c m. text_similarity eng request = Inl (HTTPException c m) \<longrightarrow>
          length (texts request) \<noteq> 2 \<and> c = 400 \<and>
          m = ''Exactly two texts must be provided for similarity comparison'')
   \<and> (\<forall>a b d1 d2 s. texts request = [a, b] \<longrightarrow> pipeline eng a = Inr d1 \<longrightarrow>
          pipeline eng b = Inr d2 \<longrightarrow> similarity_of eng d1 d2 = Inr s \<longrightarrow>
          text_similarity eng request = Inr \<lparr>similarity = s\<rparr>)"
  by (simp add: text_similarity_def split: sum.splits)

theorem text_similarity_two_texts_witness:
  "text_similarity apple_nlp \<lparr>texts = [''Apple had had enough.'', ''Apple had had enough.'']\<rparr>
     = Inr \<lparr>similarity = 1\<rparr>
   \<and> text_similarity apple_nlp \<lparr>texts = [''Apple had had enough.'', []]\<rparr>
     = Inr \<lparr>similarity = 0\<rparr>"
  using text_similarity_two_texts
    [of apple_nlp "\<lparr>texts = [''Apple had had enough.'', ''Apple had had enough.'']\<rparr>"]
    text_similarity_two_texts
    [of apple_nlp "\<lparr>texts = [''Apple had had enough.'', []]\<rparr>"]
  by (simp add: apple_nlp_def apple_doc_def empty_doc_def)

section \<open>Named entities\<close>



section \<open>Parts of speech\<close>




section \<open>Dependency parse\<close>






section \<open>The token sequences of the handlers\<close>

text \<open>
  C9. When the pipeline processes the text, the \<open>tokens\<close> of \<open>parts_of_speech\<close>, the
  \<open>tokens\<close> and \<open>lemmas\<close> of \<open>basic_analysis\<close> and the \<open>dependencies\<close> of
  \<open>dependency_parse\<close> all have one element per token of the document, and the token
  texts of the three handlers are the same list.
\<close>

theorem token_sequences_agree:
  assumes "pipeline eng (TextRequest.text request) = Inr doc"
  shows "\<exists>p b d. parts_of_speech eng request = Inr p
           \<and> basic_analysis eng request = Inr b
           \<and> dependency_parse eng request = Inr d
           \<and> length (POSResponse.tokens p) = length (doc_tokens doc)
           \<and> length (Analysis.tokens b) = length (doc_tokens doc)
           \<and> length (lemmas b) = length (doc_tokens doc)
           \<and> length (dependencies d) = length (doc_tokens doc)
           \<and> map Token.text (POSResponse.tokens p) = Analysis.tokens b
           \<and> map token (dependencies d) = Analysis.tokens b"
  using assms
  by (simp add: parts_of_speech_def basic_analysis_def dependency_parse_def comp_def)

theorem token_sequences_agree_witness:
  "\<exists>p b d. parts_of_speech apple_nlp \<lparr>TextRequest.text = ''Apple had had enough.''\<rparr> = Inr p
      \<and> basic_analysis apple_nlp \<lparr>TextRequest.text = ''Apple had had enough.''\<rparr> = Inr b
      \<and> dependency_parse apple_nlp \<lparr>TextRequest.text = ''Apple had had enough.''\<rparr> = Inr d
      \<and> length (POSResponse.tokens p) = 5 \<and> length (Analysis.tokens b) = 5
      \<and> length (lemmas b) = 5 \<and> length (dependencies d) = 5
      \<and> map Token.text (POSResponse.tokens p) = Analysis.tokens b
      \<and> map token (dependencies d) = Analysis.tokens b"
proof -
  let ?request = "\<lparr>TextRequest.text = ''Apple had had enough.''\<rparr>"
  have run: "pipeline apple_nlp (TextRequest.text ?request) = Inr apple_doc"
    by (simp add: pipeline_apple)
  have five: "length (doc_tokens apple_doc) = 5"
    by (simp add: apple_doc_def)
  from token_sequences_agree [OF run] show ?thesis
    unfolding five .
qed

section \<open>The process and its requests\<close>






section \<open>Errors of the single-text handlers\<close>








end
